theory Spec2Isabelle
  imports Complex_Main
begin

section \<open>Python values used by \<open>web.py\<close>\<close>

text \<open>
  A Python \<open>str\<close> is a sequence of Unicode code points, so it is modelled as a list of
  code point numbers: \<open>len\<close>, slicing and comparison then count what Python counts.
  \<open>S\<close> turns an ASCII literal into such a string.
\<close>

type_synonym str = "nat list"

definition S :: "string \<Rightarrow> str" where
  "S cs = map of_char cs"

text \<open>
  The value \<open>r.json()\<close> returns: \<open>None\<close>, \<open>bool\<close>, \<open>int\<close>, \<open>float\<close>, \<open>str\<close>,
  \<open>list\<close> or \<open>dict\<close>. A float is represented by its \<open>repr\<close> (the shortest string that
  reads back as the same float, such as \<open>7.8\<close>); the handlers only test a float for truth
  and format it. A dict is the association list of its items in insertion order, keys
  distinct; \<open>map_of\<close> is the lookup.
\<close>

datatype json =
    JNull
  | JBool bool
  | JInt int
  | JFloat str
  | JStr str
  | JArr "json list"
  | JObj "(str \<times> json) list"

text \<open>
  The exceptions the modelled code can raise. \<open>RequestError\<close> stands for whatever
  \<open>client.get\<close> raises (connection failure, timeout), \<open>TelegramError\<close> for whatever a
  \<open>send_message\<close> or \<open>send_photo\<close> call raises.
\<close>

datatype error =
    RequestError
  | HTTPStatusError
  | JSONDecodeError
  | AttributeError
  | TypeError
  | KeyError
  | IndexError
  | TelegramError
  | HTTPException nat str

subsection \<open>Builtins\<close>

text \<open>Truth value testing (\<open>if x\<close>, \<open>x or y\<close>, \<open>x and y\<close>).\<close>

fun truthy :: "json \<Rightarrow> bool" where
  "truthy JNull = False"
| "truthy (JBool b) = b"
| "truthy (JInt i) = (i \<noteq> 0)"
| "truthy (JFloat r) = (r \<noteq> S ''0.0'' \<and> r \<noteq> S ''-0.0'')"
| "truthy (JStr s) = (s \<noteq> [])"
| "truthy (JArr xs) = (xs \<noteq> [])"
| "truthy (JObj kvs) = (kvs \<noteq> [])"

text \<open>\<open>x or y\<close>: the first operand when it is true, else the second.\<close>

definition py_or :: "json \<Rightarrow> json \<Rightarrow> json" where
  "py_or x y = (if truthy x then x else y)"

text \<open>\<open>x.get(k)\<close> and \<open>x.get(k, d)\<close>: only a dict has the method.\<close>

fun get_default :: "json \<Rightarrow> str \<Rightarrow> json \<Rightarrow> error + json" where
  "get_default (JObj kvs) k d = Inr (case map_of kvs k of None \<Rightarrow> d | Some v \<Rightarrow> v)"
| "get_default x k d = Inl AttributeError"

definition get :: "json \<Rightarrow> str \<Rightarrow> error + json" where
  "get x k = get_default x k JNull"

text \<open>\<open>x[k]\<close> with a string key \<open>k\<close>.\<close>

fun getitem_key :: "json \<Rightarrow> str \<Rightarrow> error + json" where
  "getitem_key (JObj kvs) k = (case map_of kvs k of None \<Rightarrow> Inl KeyError | Some v \<Rightarrow> Inr v)"
| "getitem_key x k = Inl TypeError"

text \<open>
  \<open>x[0]\<close>: the first element of a list, the first character of a string. A decoded
  JSON dict has string keys only, so \<open>d[0]\<close> is a \<open>KeyError\<close>; the scalars are not
  subscriptable.
\<close>

fun getitem0 :: "json \<Rightarrow> error + json" where
  "getitem0 (JArr (x # xs)) = Inr x"
| "getitem0 (JArr []) = Inl IndexError"
| "getitem0 (JStr (c # cs)) = Inr (JStr [c])"
| "getitem0 (JStr []) = Inl IndexError"
| "getitem0 (JObj kvs) = Inl KeyError"
| "getitem0 x = Inl TypeError"

text \<open>
  \<open>x[:4]\<close>: the first four items of a string or a list. Slicing a dict raises
  (\<open>TypeError\<close>, unhashable slice, up to Python 3.11; \<open>KeyError\<close> from 3.12 on; the
  model says \<open>TypeError\<close>); the scalars are not subscriptable.
\<close>

fun slice4 :: "json \<Rightarrow> error + json" where
  "slice4 (JStr s) = Inr (JStr (take 4 s))"
| "slice4 (JArr xs) = Inr (JArr (take 4 xs))"
| "slice4 x = Inl TypeError"

text \<open>Decimal digits of an integer, as \<open>str(int)\<close> writes them.\<close>

fun digits :: "nat \<Rightarrow> str" where
  "digits n = (if n < 10 then [48 + n] else digits (n div 10) @ [48 + n mod 10])"

declare digits.simps [simp del]

definition str_int :: "int \<Rightarrow> str" where
  "str_int i = (if i < 0 then 45 # digits (nat (- i)) else digits (nat i))"

text \<open>\<open>sep.join(xs)\<close>.\<close>

fun join :: "str \<Rightarrow> str list \<Rightarrow> str" where
  "join sep [] = []"
| "join sep [x] = x"
| "join sep (x # y # ys) = x @ sep @ join sep (y # ys)"

text \<open>
  \<open>repr(x)\<close> of a decoded JSON value. The \<open>repr\<close> of a \<open>str\<close> (quotes and escapes, which
  depend on the Unicode database) is the parameter \<open>rs\<close>.
\<close>

primrec py_repr :: "(str \<Rightarrow> str) \<Rightarrow> json \<Rightarrow> str" where
  "py_repr rs JNull = S ''None''"
| "py_repr rs (JBool b) = (if b then S ''True'' else S ''False'')"
| "py_repr rs (JInt i) = str_int i"
| "py_repr rs (JFloat r) = r"
| "py_repr rs (JStr s) = rs s"
| "py_repr rs (JArr xs) = S ''['' @ join (S '', '') (map (py_repr rs) xs) @ S '']''"
| "py_repr rs (JObj kvs) =
     S ''{'' @ join (S '', '')
       (map (\<lambda>(k, r). rs k @ S '': '' @ r) (map (map_prod id (py_repr rs)) kvs)) @ S ''}''"

text \<open>What an f-string writes for \<open>{x}\<close>: \<open>str(x)\<close>, a string as it is.\<close>

definition py_str :: "(str \<Rightarrow> str) \<Rightarrow> json \<Rightarrow> str" where
  "py_str rs x = (case x of JStr s \<Rightarrow> s | _ \<Rightarrow> py_repr rs x)"

text \<open>
  \<open>s.strip()\<close> removes leading and trailing whitespace; these are the code points for
  which \<open>str.isspace\<close> holds.
\<close>

definition is_space :: "nat \<Rightarrow> bool" where
  "is_space c \<longleftrightarrow>
     (9 \<le> c \<and> c \<le> 13) \<or> (28 \<le> c \<and> c \<le> 32) \<or> c = 133 \<or> c = 160 \<or> c = 5760 \<or>
     (8192 \<le> c \<and> c \<le> 8202) \<or> c = 8232 \<or> c = 8233 \<or> c = 8239 \<or> c = 8287 \<or> c = 12288"

definition strip :: "str \<Rightarrow> str" where
  "strip s = rev (dropWhile is_space (rev (dropWhile is_space s)))"

section \<open>Configuration and process state\<close>

text \<open>
  The module-level settings read from the environment at import (lines 13-20 and 38),
  after their \<open>strip()\<close>. The module refuses to load with an empty \<open>BOT_TOKEN\<close>.
  \<open>str_lower\<close> and \<open>str_repr\<close> are Python's \<open>str.lower\<close> and the \<open>repr\<close> of a \<open>str\<close>:
  builtins defined by the Unicode database, taken as given.
\<close>

record config =
  BOT_TOKEN :: str
  TMDB_API_KEY :: str
  OMDB_API_KEY :: str
  WEBHOOK_SECRET :: str
  CACHE_TTL_SECONDS :: int
  str_lower :: "str \<Rightarrow> str"
  str_repr :: "str \<Rightarrow> str"

definition RL_WINDOW :: real where
  "RL_WINDOW = 30"

definition RL_LIMIT :: nat where
  "RL_LIMIT = 15"

text \<open>
  Time. \<open>datetime.utcnow()\<close> and its \<open>timestamp()\<close> are read as seconds since the epoch,
  a real number; \<open>now + timedelta(seconds=n)\<close> is then \<open>now + n\<close>. Every reading of the
  clock is an input of the function that makes it.
\<close>

record CacheItem =
  cvalue :: json
  expiry :: real

text \<open>A call of the bot API: \<open>send_message(chat_id, text, parse_mode)\<close> or
  \<open>send_photo(chat_id, photo, caption, parse_mode)\<close>.\<close>

datatype bot_call =
    Send_message int str "str option"
  | Send_photo int json str "str option"

text \<open>
  The mutable state of the process and the record of its effects on the outside:
  \<^item> \<open>cache\<close> and \<open>user_events\<close> are the two module-level dicts (lines 37 and 41);
    \<open>user_events\<close> is a \<open>defaultdict(deque)\<close>, so every identity has a deque, empty
    until its first event;
  \<^item> \<open>requests\<close> lists the upstream GETs issued (URL and parameters), oldest first;
  \<^item> \<open>searches\<close> lists the documents inserted into \<open>db.searches\<close>;
  \<^item> \<open>warnings\<close> counts the calls of \<open>log.warning\<close>;
  \<^item> \<open>bot_calls\<close> lists the calls of the bot API, oldest first.
\<close>

record world =
  cache :: "str \<rightharpoonup> CacheItem"
  user_events :: "int \<Rightarrow> real list"
  requests :: "(str \<times> (str \<times> str) list) list"
  searches :: "(int \<times> str \<times> real) list"
  warnings :: nat
  bot_calls :: "bot_call list"

section \<open>The rate limiter (lines 77-85)\<close>

text \<open>
  The \<open>while\<close> loop of \<open>rate_limited\<close>: pop the front of the deque while it is more than
  \<open>RL_WINDOW\<close> seconds old.
\<close>

fun popleft_old :: "real \<Rightarrow> real list \<Rightarrow> real list" where
  "popleft_old now [] = []"
| "popleft_old now (t # dq) = (if now - t > RL_WINDOW then popleft_old now dq else t # dq)"

text \<open>
  \<open>rate_limited(uid)\<close> with the clock reading \<open>now\<close>: the answer (\<open>True\<close> means the
  event is refused) and the updated \<open>user_events\<close>.
\<close>

definition rate_limited :: "real \<Rightarrow> int \<Rightarrow> (int \<Rightarrow> real list) \<Rightarrow> bool \<times> (int \<Rightarrow> real list)" where
  "rate_limited now uid ue =
     (let dq = popleft_old now (ue uid) in
      if length dq \<ge> RL_LIMIT then (True, ue(uid := dq))
      else (False, ue(uid := dq @ [now])))"

text \<open>A sequence of calls \<open>(uid, now)\<close>, oldest first: the answers and the final state.\<close>

fun rate_limited_calls :: "(int \<times> real) list \<Rightarrow> (int \<Rightarrow> real list) \<Rightarrow> bool list \<times> (int \<Rightarrow> real list)" where
  "rate_limited_calls [] ue = ([], ue)"
| "rate_limited_calls ((uid, now) # cs) ue =
     (let (b, ue1) = rate_limited now uid ue;
          (bs, ue2) = rate_limited_calls cs ue1
      in (b # bs, ue2))"

section \<open>The cached lookups (lines 43-75)\<close>

text \<open>
  What the three library calls of a lookup do when they are made: \<open>client.get\<close> raises,
  or \<open>r.raise_for_status()\<close> raises, or \<open>r.json()\<close> raises, or \<open>r.json()\<close> returns
  the decoded body. The outcome is an input of the lookup; it is consumed only if the
  lookup reaches the request.
\<close>

datatype http_outcome =
    Get_raises
  | Status_raises
  | Json_raises
  | Json_data json

text \<open>Lines 53-56 and 70-73: the GET is issued, then its outcome decides.\<close>

definition http_get_json ::
  "http_outcome \<Rightarrow> str \<Rightarrow> (str \<times> str) list \<Rightarrow> world \<Rightarrow> (error + json) \<times> world" where
  "http_get_json out url params w =
     (let w1 = w\<lparr>requests := requests w @ [(url, params)]\<rparr> in
      case out of
        Get_raises \<Rightarrow> (Inl RequestError, w1)
      | Status_raises \<Rightarrow> (Inl HTTPStatusError, w1)
      | Json_raises \<Rightarrow> (Inl JSONDecodeError, w1)
      | Json_data data \<Rightarrow> (Inr data, w1))"

definition tmdb_request :: "config \<Rightarrow> str \<Rightarrow> str \<times> (str \<times> str) list" where
  "tmdb_request cfg title =
     (S ''https://api.themoviedb.org/3/search/movie'',
      [(S ''api_key'', TMDB_API_KEY cfg), (S ''query'', title), (S ''include_adult'', S ''false'')])"

definition omdb_request :: "config \<Rightarrow> str \<Rightarrow> str \<times> (str \<times> str) list" where
  "omdb_request cfg title =
     (S ''http://www.omdbapi.com/'', [(S ''apikey'', OMDB_API_KEY cfg), (S ''t'', title)])"

text \<open>
  \<open>tmdb_search(title)\<close> with the clock reading \<open>now\<close> and the outcome \<open>out\<close> of the
  request. \<open>Inr JNull\<close> is the \<open>return None\<close> of an unconfigured service. A
  \<open>CacheItem\<close> is always true, so \<open>ci and ci.expiry > now\<close> tests presence and expiry.
\<close>

definition tmdb_search ::
  "config \<Rightarrow> real \<Rightarrow> http_outcome \<Rightarrow> str \<Rightarrow> world \<Rightarrow> (error + json) \<times> world" where
  "tmdb_search cfg now out title w =
     (if TMDB_API_KEY cfg = [] then (Inr JNull, w)
      else
        let key = S ''tmdb:'' @ str_lower cfg title in
        case (case cache w key of
                None \<Rightarrow> None
              | Some ci \<Rightarrow> if expiry ci > now then Some ci else None) of
          Some ci \<Rightarrow> (Inr (cvalue ci), w)
        | None \<Rightarrow>
            (case http_get_json out (fst (tmdb_request cfg title)) (snd (tmdb_request cfg title)) w of
               (Inl e, w1) \<Rightarrow> (Inl e, w1)
             | (Inr data, w1) \<Rightarrow>
                 (Inr data,
                  w1\<lparr>cache := (cache w1)(key \<mapsto>
                    \<lparr>cvalue = data, expiry = now + real_of_int (CACHE_TTL_SECONDS cfg)\<rparr>)\<rparr>)))"

definition omdb_lookup ::
  "config \<Rightarrow> real \<Rightarrow> http_outcome \<Rightarrow> str \<Rightarrow> world \<Rightarrow> (error + json) \<times> world" where
  "omdb_lookup cfg now out title w =
     (if OMDB_API_KEY cfg = [] then (Inr JNull, w)
      else
        let key = S ''omdb:'' @ str_lower cfg title in
        case (case cache w key of
                None \<Rightarrow> None
              | Some ci \<Rightarrow> if expiry ci > now then Some ci else None) of
          Some ci \<Rightarrow> (Inr (cvalue ci), w)
        | None \<Rightarrow>
            (case http_get_json out (fst (omdb_request cfg title)) (snd (omdb_request cfg title)) w of
               (Inl e, w1) \<Rightarrow> (Inl e, w1)
             | (Inr data, w1) \<Rightarrow>
                 (Inr data,
                  w1\<lparr>cache := (cache w1)(key \<mapsto>
                    \<lparr>cvalue = data, expiry = now + real_of_int (CACHE_TTL_SECONDS cfg)\<rparr>)\<rparr>)))"

section \<open>The text handler (lines 96-128)\<close>

text \<open>
  The fields of the \<open>Update\<close> the handler reads: the id of \<open>effective_user\<close> and of
  \<open>effective_chat\<close> (each may be \<open>None\<close>), and \<open>message.text\<close> (the message may be
  \<open>None\<close>, and so may its text).
\<close>

record Update =
  effective_user :: "int option"
  effective_chat :: "int option"
  message :: "str option option"

text \<open>
  What the outside contributes to one run of the handler: the clock readings, in the
  order the handler makes them, the fate of the audit insert, the outcomes of the two
  upstream requests, and whether the bot API call raises.
\<close>

datatype audit_outcome =
    No_db
  | Insert_ok
  | Insert_raises

record outside =
  clock_rl :: real
  audit :: audit_outcome
  clock_audit :: real
  clock_tmdb :: real
  tmdb_http :: http_outcome
  clock_omdb :: real
  omdb_http :: http_outcome
  send_raises :: bool

text \<open>Sequencing of steps that may raise.\<close>

definition bind :: "error + 'a \<Rightarrow> ('a \<Rightarrow> error + 'b) \<Rightarrow> error + 'b" where
  "bind m f = (case m of Inl e \<Rightarrow> Inl e | Inr x \<Rightarrow> f x)"

text \<open>
  \<open>await context.bot.send_...(update.effective_chat.id, ...)\<close>: the chat id is read
  first (\<open>AttributeError\<close> when there is no chat), then the call is made.
\<close>

definition bot_send :: "outside \<Rightarrow> Update \<Rightarrow> (int \<Rightarrow> bot_call) \<Rightarrow> world \<Rightarrow> (error + unit) \<times> world" where
  "bot_send ext u call w =
     (case effective_chat u of
        None \<Rightarrow> (Inl AttributeError, w)
      | Some chat \<Rightarrow>
          (let w1 = w\<lparr>bot_calls := bot_calls w @ [call chat]\<rparr> in
           if send_raises ext then (Inl TelegramError, w1) else (Inr (), w1)))"

text \<open>
  Lines 102-106: nothing without a database; else the insert, and a warning when
  anything in the \<open>try\<close> block raises.
\<close>

definition audit_log :: "outside \<Rightarrow> int \<Rightarrow> str \<Rightarrow> world \<Rightarrow> world" where
  "audit_log ext uid q w =
     (case audit ext of
        No_db \<Rightarrow> w
      | Insert_ok \<Rightarrow> w\<lparr>searches := searches w @ [(uid, q, clock_audit ext)]\<rparr>
      | Insert_raises \<Rightarrow> w\<lparr>warnings := Suc (warnings w)\<rparr>)"

text \<open>Line 108: \<open>info and info.get("results")\<close>, as a truth value.\<close>

definition has_results :: "json \<Rightarrow> error + bool" where
  "has_results info =
     (if truthy info then bind (get info (S ''results'')) (\<lambda>r. Inr (truthy r)) else Inr False)"

text \<open>Lines 109-115: the caption and the poster of the first TMDB result.\<close>

definition tmdb_caption :: "config \<Rightarrow> str \<Rightarrow> json \<Rightarrow> error + str \<times> json" where
  "tmdb_caption cfg q info =
     bind (getitem_key info (S ''results'')) (\<lambda>results.
     bind (getitem0 results) (\<lambda>top.
     bind (get top (S ''title'')) (\<lambda>t.
     bind (get top (S ''release_date'')) (\<lambda>rd.
     bind (slice4 (py_or rd (JStr []))) (\<lambda>year.
     bind (get_default top (S ''vote_average'') (JStr (S ''N/A''))) (\<lambda>rating.
     bind (get top (S ''poster_path'')) (\<lambda>poster.
     Inr ([127916] @ S '' *'' @ py_str (str_repr cfg) (py_or t (JStr q)) @ S ''* ('' @
            py_str (str_repr cfg) year @ S '')'' @ [10, 11088] @ S '' '' @
            py_str (str_repr cfg) rating @ S '' / 10 (TMDB)'',
          poster))))))))"

text \<open>Line 121: \<open>om and om.get("Response") == "True"\<close>.\<close>

definition omdb_matches :: "json \<Rightarrow> error + bool" where
  "omdb_matches om =
     (if truthy om then bind (get om (S ''Response'')) (\<lambda>r. Inr (r = JStr (S ''True'')))
      else Inr False)"

text \<open>Lines 122-124: the poster and the caption of the OMDB answer.\<close>

definition omdb_caption :: "config \<Rightarrow> json \<Rightarrow> error + str \<times> json" where
  "omdb_caption cfg om =
     bind (get om (S ''Poster'')) (\<lambda>poster.
     bind (get_default om (S ''Title'') (JStr (S ''?''))) (\<lambda>t.
     bind (get_default om (S ''Year'') (JStr [])) (\<lambda>year.
     bind (get_default om (S ''imdbRating'') (JStr (S ''N/A''))) (\<lambda>rating.
     Inr ([127916] @ S '' *'' @ py_str (str_repr cfg) t @ S ''* ('' @
            py_str (str_repr cfg) year @ S '')'' @ [10, 11088] @ S '' '' @
            py_str (str_repr cfg) rating @ S '' / 10 (IMDB)'',
          poster)))))"

definition TOO_MANY :: str where
  "TOO_MANY = [9203] @ S '' Too many requests. Slow down.''"

definition NOT_FOUND :: str where
  "NOT_FOUND = [10060] @ S '' Not found. Try another title.''"

definition TMDB_IMAGE_BASE :: str where
  "TMDB_IMAGE_BASE = S ''https://image.tmdb.org/t/p/w500''"

text \<open>Lines 120-128: the OMDB fallback and the not-found reply.\<close>

definition omdb_stage :: "config \<Rightarrow> outside \<Rightarrow> Update \<Rightarrow> str \<Rightarrow> world \<Rightarrow> (error + unit) \<times> world" where
  "omdb_stage cfg ext u q w =
     (case omdb_lookup cfg (clock_omdb ext) (omdb_http ext) q w of
        (Inl e, w1) \<Rightarrow> (Inl e, w1)
      | (Inr om, w1) \<Rightarrow>
          (case omdb_matches om of
             Inl e \<Rightarrow> (Inl e, w1)
           | Inr True \<Rightarrow>
               (case omdb_caption cfg om of
                  Inl e \<Rightarrow> (Inl e, w1)
                | Inr (caption, poster) \<Rightarrow>
                    if truthy poster \<and> poster \<noteq> JStr (S ''N/A'')
                    then bot_send ext u (\<lambda>chat. Send_photo chat poster caption (Some (S ''Markdown''))) w1
                    else bot_send ext u (\<lambda>chat. Send_message chat caption (Some (S ''Markdown''))) w1)
           | Inr False \<Rightarrow> bot_send ext u (\<lambda>chat. Send_message chat NOT_FOUND None) w1))"

text \<open>Lines 107-119, then the fallback.\<close>

definition tmdb_stage :: "config \<Rightarrow> outside \<Rightarrow> Update \<Rightarrow> str \<Rightarrow> world \<Rightarrow> (error + unit) \<times> world" where
  "tmdb_stage cfg ext u q w =
     (case tmdb_search cfg (clock_tmdb ext) (tmdb_http ext) q w of
        (Inl e, w1) \<Rightarrow> (Inl e, w1)
      | (Inr info, w1) \<Rightarrow>
          (case has_results info of
             Inl e \<Rightarrow> (Inl e, w1)
           | Inr True \<Rightarrow>
               (case tmdb_caption cfg q info of
                  Inl e \<Rightarrow> (Inl e, w1)
                | Inr (caption, poster) \<Rightarrow>
                    if truthy poster
                    then bot_send ext u
                           (\<lambda>chat. Send_photo chat
                              (JStr (TMDB_IMAGE_BASE @ py_str (str_repr cfg) poster))
                              caption (Some (S ''Markdown''))) w1
                    else bot_send ext u (\<lambda>chat. Send_message chat caption (Some (S ''Markdown''))) w1)
           | Inr False \<Rightarrow> omdb_stage cfg ext u q w1))"

text \<open>
  \<open>text_handler(update, context)\<close>: the identity (0 without a sender), the rate limit,
  the query, the audit record, then the lookups and the reply.
\<close>

definition text_handler :: "config \<Rightarrow> outside \<Rightarrow> Update \<Rightarrow> world \<Rightarrow> (error + unit) \<times> world" where
  "text_handler cfg ext u w =
     (let uid = (case effective_user u of Some i \<Rightarrow> i | None \<Rightarrow> 0);
          (limited, ue) = rate_limited (clock_rl ext) uid (user_events w);
          w1 = w\<lparr>user_events := ue\<rparr>
      in if limited then bot_send ext u (\<lambda>chat. Send_message chat TOO_MANY None) w1
         else
           (case message u of
              None \<Rightarrow> (Inl AttributeError, w1)
            | Some text \<Rightarrow>
                (let q = strip (case text of None \<Rightarrow> [] | Some s \<Rightarrow> s)
                 in tmdb_stage cfg ext u q (audit_log ext uid q w1))))"

section \<open>The webhook endpoint (lines 179-188)\<close>

text \<open>
  \<open>webhook(token, request)\<close>. \<open>secret\<close> is the query parameter (\<open>None\<close> when absent,
  read as the empty string), \<open>body\<close> the decoded request body (\<open>None\<close> when
  \<open>request.json()\<close> raises). \<open>Update.de_json\<close> and \<open>process_update\<close> belong to the
  telegram library; what they do with the body is the parameter \<open>process_update\<close>.
\<close>

definition webhook ::
  "config \<Rightarrow> str \<Rightarrow> str option \<Rightarrow> json option \<Rightarrow>
   (json \<Rightarrow> world \<Rightarrow> (error + unit) \<times> world) \<Rightarrow> world \<Rightarrow> (error + json) \<times> world" where
  "webhook cfg token secret body process_update w =
     (if token \<noteq> BOT_TOKEN cfg then (Inl (HTTPException 403 (S ''bad token'')), w)
      else if (case secret of None \<Rightarrow> [] | Some s \<Rightarrow> s) \<noteq> WEBHOOK_SECRET cfg
        then (Inl (HTTPException 403 (S ''bad secret'')), w)
      else
        (case body of
           None \<Rightarrow> (Inl JSONDecodeError, w)
         | Some data \<Rightarrow>
             (case process_update data w of
                (Inl e, w1) \<Rightarrow> (Inl e, w1)
              | (Inr _, w1) \<Rightarrow> (Inr (JObj [(S ''ok'', JBool True)]), w1))))"

section \<open>Initial state and an example configuration\<close>

text \<open>The state right after import: both dicts empty, nothing done yet.\<close>

definition initial_world :: world where
  "initial_world =
     \<lparr>cache = Map.empty, user_events = (\<lambda>_. []), requests = [], searches = [],
      warnings = 0, bot_calls = []\<rparr>"

text \<open>
  A configuration with both lookup services set up, for the worked examples. On ASCII
  text \<open>str.lower\<close> maps \<open>A\<close>-\<open>Z\<close> to \<open>a\<close>-\<open>z\<close>, and the \<open>repr\<close> of a string of letters
  and digits puts it in single quotes.
\<close>

definition ascii_lower :: "str \<Rightarrow> str" where
  "ascii_lower s = map (\<lambda>c. if 65 \<le> c \<and> c \<le> 90 then c + 32 else c) s"

definition ascii_repr :: "str \<Rightarrow> str" where
  "ascii_repr s = 39 # s @ [39]"

definition example_config :: config where
  "example_config =
     \<lparr>BOT_TOKEN = S ''123:abc'', TMDB_API_KEY = S ''tk'', OMDB_API_KEY = S ''ok'',
      WEBHOOK_SECRET = S ''wh_dev'', CACHE_TTL_SECONDS = 900,
      str_lower = ascii_lower, str_repr = ascii_repr\<rparr>"


text \<open>
  A state whose cache holds, for the query \<open>jailer\<close>, an entry of each service that
  expires at time 5.
\<close>

definition example_world :: world where
  "example_world =
     initial_world\<lparr>cache :=
       [S ''tmdb:jailer'' \<mapsto> \<lparr>cvalue = JObj [], expiry = 5\<rparr>,
        S ''omdb:jailer'' \<mapsto> \<lparr>cvalue = JObj [], expiry = 5\<rparr>]\<rparr>"

text \<open>
  A text message \<open>Jailer\<close> from user 42 in chat 5, the TMDB answer of the end-to-end
  scenario, an OMDB answer that matches and has no poster, and a run of the handler at
  time 1 in which each service, if asked, gives its answer.
\<close>

definition example_update :: Update where
  "example_update =
     \<lparr>effective_user = Some 42, effective_chat = Some 5, message = Some (Some (S ''Jailer''))\<rparr>"

definition jailer_response :: json where
  "jailer_response =
     JObj [(S ''results'', JArr [JObj
       [(S ''title'', JStr (S ''Jailer'')), (S ''release_date'', JStr (S ''2023-08-10'')),
        (S ''vote_average'', JFloat (S ''7.8'')), (S ''poster_path'', JStr (S ''/abc.jpg''))]])]"

definition omdb_answer :: json where
  "omdb_answer =
     JObj [(S ''Title'', JStr (S ''Jailer'')), (S ''Year'', JStr (S ''2023'')),
           (S ''imdbRating'', JStr (S ''7.1'')), (S ''Poster'', JStr (S ''N/A'')),
           (S ''Response'', JStr (S ''True''))]"

definition example_outside :: outside where
  "example_outside =
     \<lparr>clock_rl = 1, audit = No_db, clock_audit = 1, clock_tmdb = 1,
      tmdb_http = Json_data jailer_response, clock_omdb = 1, omdb_http = Json_data omdb_answer,
      send_raises = False\<rparr>"

section \<open>String literals\<close>

lemma S_Nil [simp]: "S [] = []"
  by (simp add: S_def)

lemma S_eq_iff [simp]: "S a = S b \<longleftrightarrow> a = b"
  by (simp add: S_def inj_map_eq_map inj_of_char)

lemma S_eq_Nil [simp]: "S a = [] \<longleftrightarrow> a = []"
  by (simp add: S_def)

lemma Nil_eq_S [simp]: "[] = S a \<longleftrightarrow> a = []"
  by (simp add: S_def)

section \<open>Properties of the rate limiter\<close>

lemma popleft_old_dropWhile:
  "popleft_old now dq = dropWhile (\<lambda>t. t < now - RL_WINDOW) dq"
  by (induction dq) auto












text \<open>
  Claim C4. Every call of the limiter drops from the front of the caller's deque the
  timestamps older than \<open>now - RL_WINDOW\<close>, stopping at the first that is not; it then
  refuses, recording nothing, when \<open>RL_LIMIT\<close> or more remain, and otherwise appends
  \<open>now\<close> and accepts. No other identity's deque changes. The limit is 15 and the
  window 30 seconds: of 15 events at time 0 and one at time 1 the sixteenth is refused,
  and events at times 0 and 31 are both accepted. (\<open>rate_limited\<close> answers \<open>True\<close> when
  it refuses.)
\<close>

theorem rate_limited_contract:
  "rate_limited now uid ue =
     (let dq = dropWhile (\<lambda>t. t < now - RL_WINDOW) (ue uid) in
      if length dq \<ge> RL_LIMIT then (True, ue(uid := dq)) else (False, ue(uid := dq @ [now])))
   \<and> RL_LIMIT = 15 \<and> RL_WINDOW = 30
   \<and> fst (rate_limited_calls (replicate 15 (uid, 0) @ [(uid, 1)]) (\<lambda>_. []))
       = replicate 15 False @ [True]
   \<and> fst (rate_limited_calls [(uid, 0), (uid, 31)] (\<lambda>_. [])) = [False, False]"
  apply (intro conjI)
  subgoal by (simp add: rate_limited_def popleft_old_dropWhile)
  subgoal by (simp add: RL_LIMIT_def)
  subgoal by (simp add: RL_WINDOW_def)
  subgoal by (simp add: rate_limited_def RL_WINDOW_def RL_LIMIT_def eval_nat_numeral)
  subgoal by (simp add: rate_limited_def RL_WINDOW_def RL_LIMIT_def)
  done




section \<open>Properties of the cached lookups\<close>


lemma tmdb_search_miss:
  assumes "TMDB_API_KEY cfg \<noteq> []"
    and "case cache w (S ''tmdb:'' @ str_lower cfg title) of None \<Rightarrow> True | Some ci \<Rightarrow> expiry ci \<le> now"
  shows "tmdb_search cfg now out title w =
    (case out of
       Get_raises \<Rightarrow> (Inl RequestError, w\<lparr>requests := requests w @ [tmdb_request cfg title]\<rparr>)
     | Status_raises \<Rightarrow> (Inl HTTPStatusError, w\<lparr>requests := requests w @ [tmdb_request cfg title]\<rparr>)
     | Json_raises \<Rightarrow> (Inl JSONDecodeError, w\<lparr>requests := requests w @ [tmdb_request cfg title]\<rparr>)
     | Json_data data \<Rightarrow>
         (Inr data, w\<lparr>requests := requests w @ [tmdb_request cfg title],
            cache := (cache w)(S ''tmdb:'' @ str_lower cfg title \<mapsto>
              \<lparr>cvalue = data, expiry = now + real_of_int (CACHE_TTL_SECONDS cfg)\<rparr>)\<rparr>))"
  using assms
  by (auto simp: tmdb_search_def http_get_json_def Let_def split: option.splits http_outcome.splits)


lemma omdb_lookup_miss:
  assumes "OMDB_API_KEY cfg \<noteq> []"
    and "case cache w (S ''omdb:'' @ str_lower cfg title) of None \<Rightarrow> True | Some ci \<Rightarrow> expiry ci \<le> now"
  shows "omdb_lookup cfg now out title w =
    (case out of
       Get_raises \<Rightarrow> (Inl RequestError, w\<lparr>requests := requests w @ [omdb_request cfg title]\<rparr>)
     | Status_raises \<Rightarrow> (Inl HTTPStatusError, w\<lparr>requests := requests w @ [omdb_request cfg title]\<rparr>)
     | Json_raises \<Rightarrow> (Inl JSONDecodeError, w\<lparr>requests := requests w @ [omdb_request cfg title]\<rparr>)
     | Json_data data \<Rightarrow>
         (Inr data, w\<lparr>requests := requests w @ [omdb_request cfg title],
            cache := (cache w)(S ''omdb:'' @ str_lower cfg title \<mapsto>
              \<lparr>cvalue = data, expiry = now + real_of_int (CACHE_TTL_SECONDS cfg)\<rparr>)\<rparr>))"
  using assms
  by (auto simp: omdb_lookup_def http_get_json_def Let_def split: option.splits http_outcome.splits)








text \<open>Evaluation of the worked examples.\<close>

lemma S_append: "S a @ S b = S (a @ b)"
  by (simp add: S_def)

lemma ascii_lower_examples:
  "ascii_lower (S ''Jailer'') = S ''jailer''" "ascii_lower (S ''JAILER'') = S ''jailer''"
  by (simp_all add: ascii_lower_def S_def)

lemmas example_simps =
  example_config_def example_world_def initial_world_def ascii_lower_examples S_append
  tmdb_search_def omdb_lookup_def http_get_json_def


lemma tmdb_search_failure:
  assumes "TMDB_API_KEY cfg \<noteq> []"
    and "case cache w (S ''tmdb:'' @ str_lower cfg title) of None \<Rightarrow> True | Some ci \<Rightarrow> expiry ci \<le> t1"
    and "out1 \<in> {Get_raises, Status_raises, Json_raises}"
  shows "tmdb_search cfg t1 out1 title w =
      (Inl (case out1 of Get_raises \<Rightarrow> RequestError | Status_raises \<Rightarrow> HTTPStatusError
            | _ \<Rightarrow> JSONDecodeError),
       w\<lparr>requests := requests w @ [tmdb_request cfg title]\<rparr>)"
    and "str_lower cfg title2 = str_lower cfg title \<Longrightarrow> t1 \<le> t2 \<Longrightarrow>
      requests (snd (tmdb_search cfg t2 out2 title2 (w\<lparr>requests := requests w @ [tmdb_request cfg title]\<rparr>)))
        = requests w @ [tmdb_request cfg title, tmdb_request cfg title2]"
proof -
  show "tmdb_search cfg t1 out1 title w =
      (Inl (case out1 of Get_raises \<Rightarrow> RequestError | Status_raises \<Rightarrow> HTTPStatusError
            | _ \<Rightarrow> JSONDecodeError),
       w\<lparr>requests := requests w @ [tmdb_request cfg title]\<rparr>)"
    using tmdb_search_miss [OF assms(1,2), of out1] assms(3) by auto
next
  assume a: "str_lower cfg title2 = str_lower cfg title" "t1 \<le> t2"
  let ?w1 = "w\<lparr>requests := requests w @ [tmdb_request cfg title]\<rparr>"
  have "case cache ?w1 (S ''tmdb:'' @ str_lower cfg title2) of None \<Rightarrow> True | Some ci \<Rightarrow> expiry ci \<le> t2"
    using assms(2) a by (auto split: option.splits)
  from tmdb_search_miss [OF assms(1) this, of out2]
  show "requests (snd (tmdb_search cfg t2 out2 title2 ?w1))
        = requests w @ [tmdb_request cfg title, tmdb_request cfg title2]"
    by (cases out2) simp_all
qed

lemma omdb_lookup_failure:
  assumes "OMDB_API_KEY cfg \<noteq> []"
    and "case cache w (S ''omdb:'' @ str_lower cfg title) of None \<Rightarrow> True | Some ci \<Rightarrow> expiry ci \<le> t1"
    and "out1 \<in> {Get_raises, Status_raises, Json_raises}"
  shows "omdb_lookup cfg t1 out1 title w =
      (Inl (case out1 of Get_raises \<Rightarrow> RequestError | Status_raises \<Rightarrow> HTTPStatusError
            | _ \<Rightarrow> JSONDecodeError),
       w\<lparr>requests := requests w @ [omdb_request cfg title]\<rparr>)"
    and "str_lower cfg title2 = str_lower cfg title \<Longrightarrow> t1 \<le> t2 \<Longrightarrow>
      requests (snd (omdb_lookup cfg t2 out2 title2 (w\<lparr>requests := requests w @ [omdb_request cfg title]\<rparr>)))
        = requests w @ [omdb_request cfg title, omdb_request cfg title2]"
proof -
  show "omdb_lookup cfg t1 out1 title w =
      (Inl (case out1 of Get_raises \<Rightarrow> RequestError | Status_raises \<Rightarrow> HTTPStatusError
            | _ \<Rightarrow> JSONDecodeError),
       w\<lparr>requests := requests w @ [omdb_request cfg title]\<rparr>)"
    using omdb_lookup_miss [OF assms(1,2), of out1] assms(3) by auto
next
  assume a: "str_lower cfg title2 = str_lower cfg title" "t1 \<le> t2"
  let ?w1 = "w\<lparr>requests := requests w @ [omdb_request cfg title]\<rparr>"
  have "case cache ?w1 (S ''omdb:'' @ str_lower cfg title2) of None \<Rightarrow> True | Some ci \<Rightarrow> expiry ci \<le> t2"
    using assms(2) a by (auto split: option.splits)
  from omdb_lookup_miss [OF assms(1) this, of out2]
  show "requests (snd (omdb_lookup cfg t2 out2 title2 ?w1))
        = requests w @ [omdb_request cfg title, omdb_request cfg title2]"
    by (cases out2) simp_all
qed

text \<open>
  Claim C6. When a configured lookup finds no live entry for its key and the request
  fails (\<open>client.get\<close>, \<open>raise_for_status\<close> or \<open>r.json()\<close> raises), the lookup raises
  that error and the state changes only by the request issued: the cache is as before.
  The next call for the same key, at a time not before the first, issues a request
  again, whatever its outcome. This holds for \<open>tmdb_search\<close> and for \<open>omdb_lookup\<close>.
\<close>

theorem failed_fetch_not_cached:
  "(TMDB_API_KEY cfg \<noteq> []
      \<and> (case cache w (S ''tmdb:'' @ str_lower cfg title) of None \<Rightarrow> True | Some ci \<Rightarrow> expiry ci \<le> t1)
      \<and> out1 \<in> {Get_raises, Status_raises, Json_raises}
    \<longrightarrow> tmdb_search cfg t1 out1 title w =
          (Inl (case out1 of Get_raises \<Rightarrow> RequestError | Status_raises \<Rightarrow> HTTPStatusError
                | _ \<Rightarrow> JSONDecodeError),
           w\<lparr>requests := requests w @ [tmdb_request cfg title]\<rparr>)
        \<and> (str_lower cfg title2 = str_lower cfg title \<and> t1 \<le> t2 \<longrightarrow>
             requests (snd (tmdb_search cfg t2 out2 title2 (snd (tmdb_search cfg t1 out1 title w))))
               = requests w @ [tmdb_request cfg title, tmdb_request cfg title2]))
   \<and> (OMDB_API_KEY cfg \<noteq> []
      \<and> (case cache w (S ''omdb:'' @ str_lower cfg title) of None \<Rightarrow> True | Some ci \<Rightarrow> expiry ci \<le> t1)
      \<and> out1 \<in> {Get_raises, Status_raises, Json_raises}
    \<longrightarrow> omdb_lookup cfg t1 out1 title w =
          (Inl (case out1 of Get_raises \<Rightarrow> RequestError | Status_raises \<Rightarrow> HTTPStatusError
                | _ \<Rightarrow> JSONDecodeError),
           w\<lparr>requests := requests w @ [omdb_request cfg title]\<rparr>)
        \<and> (str_lower cfg title2 = str_lower cfg title \<and> t1 \<le> t2 \<longrightarrow>
             requests (snd (omdb_lookup cfg t2 out2 title2 (snd (omdb_lookup cfg t1 out1 title w))))
               = requests w @ [omdb_request cfg title, omdb_request cfg title2]))"
proof (intro conjI impI; (elim conjE)?)
  assume a: "TMDB_API_KEY cfg \<noteq> []"
    "case cache w (S ''tmdb:'' @ str_lower cfg title) of None \<Rightarrow> True | Some ci \<Rightarrow> expiry ci \<le> t1"
    "out1 \<in> {Get_raises, Status_raises, Json_raises}"
  show r: "tmdb_search cfg t1 out1 title w =
          (Inl (case out1 of Get_raises \<Rightarrow> RequestError | Status_raises \<Rightarrow> HTTPStatusError
                | _ \<Rightarrow> JSONDecodeError),
           w\<lparr>requests := requests w @ [tmdb_request cfg title]\<rparr>)"
    by (rule tmdb_search_failure(1) [OF a])
  assume "str_lower cfg title2 = str_lower cfg title" "t1 \<le> t2"
  from tmdb_search_failure(2) [OF a this, of out2]
  show "requests (snd (tmdb_search cfg t2 out2 title2 (snd (tmdb_search cfg t1 out1 title w))))
               = requests w @ [tmdb_request cfg title, tmdb_request cfg title2]"
    by (simp add: r)
next
  assume a: "OMDB_API_KEY cfg \<noteq> []"
    "case cache w (S ''omdb:'' @ str_lower cfg title) of None \<Rightarrow> True | Some ci \<Rightarrow> expiry ci \<le> t1"
    "out1 \<in> {Get_raises, Status_raises, Json_raises}"
  show r: "omdb_lookup cfg t1 out1 title w =
          (Inl (case out1 of Get_raises \<Rightarrow> RequestError | Status_raises \<Rightarrow> HTTPStatusError
                | _ \<Rightarrow> JSONDecodeError),
           w\<lparr>requests := requests w @ [omdb_request cfg title]\<rparr>)"
    by (rule omdb_lookup_failure(1) [OF a])
  assume "str_lower cfg title2 = str_lower cfg title" "t1 \<le> t2"
  from omdb_lookup_failure(2) [OF a this, of out2]
  show "requests (snd (omdb_lookup cfg t2 out2 title2 (snd (omdb_lookup cfg t1 out1 title w))))
               = requests w @ [omdb_request cfg title, omdb_request cfg title2]"
    by (simp add: r)
qed

theorem failed_fetch_not_cached_witness:
  "TMDB_API_KEY example_config \<noteq> [] \<and> OMDB_API_KEY example_config \<noteq> []
   \<and> cache initial_world (S ''tmdb:'' @ str_lower example_config (S ''Jailer'')) = None
   \<and> cache initial_world (S ''omdb:'' @ str_lower example_config (S ''Jailer'')) = None
   \<and> tmdb_search example_config 0 Status_raises (S ''Jailer'') initial_world
       = (Inl HTTPStatusError, initial_world\<lparr>requests := [tmdb_request example_config (S ''Jailer'')]\<rparr>)
   \<and> omdb_lookup example_config 0 Status_raises (S ''Jailer'') initial_world
       = (Inl HTTPStatusError, initial_world\<lparr>requests := [omdb_request example_config (S ''Jailer'')]\<rparr>)
   \<and> str_lower example_config (S ''JAILER'') = str_lower example_config (S ''Jailer'')
   \<and> requests (snd (tmdb_search example_config 1 (Json_data JNull) (S ''JAILER'')
        (snd (tmdb_search example_config 0 Status_raises (S ''Jailer'') initial_world))))
       = [tmdb_request example_config (S ''Jailer''), tmdb_request example_config (S ''JAILER'')]
   \<and> requests (snd (omdb_lookup example_config 1 (Json_data JNull) (S ''JAILER'')
        (snd (omdb_lookup example_config 0 Status_raises (S ''Jailer'') initial_world))))
       = [omdb_request example_config (S ''Jailer''), omdb_request example_config (S ''JAILER'')]"
  using failed_fetch_not_cached [where cfg = example_config and w = initial_world
      and title = "S ''Jailer''" and ?t1.0 = 0 and ?out1.0 = Status_raises
      and ?title2.0 = "S ''JAILER''" and ?t2.0 = 1 and ?out2.0 = "Json_data JNull"]
  by (simp add: example_simps)

section \<open>Properties of the webhook endpoint\<close>

text \<open>
  Claim C5. A request whose path token differs from \<open>BOT_TOKEN\<close>, or whose \<open>secret\<close>
  query parameter (the empty string when absent) differs from \<open>WEBHOOK_SECRET\<close>, is
  answered with an \<open>HTTPException\<close> of status 403, and the state after it is the state
  before it: no deque of the rate limiter, no audit record, no upstream request, no
  cache entry and no bot call is added. The body is not read and the update is not
  processed, whatever \<open>process_update\<close> would do.
\<close>

theorem webhook_rejects_unauthenticated:
  assumes "token \<noteq> BOT_TOKEN cfg \<or> (case secret of None \<Rightarrow> [] | Some s \<Rightarrow> s) \<noteq> WEBHOOK_SECRET cfg"
  shows "webhook cfg token secret body process_update w =
           (Inl (HTTPException 403
              (if token \<noteq> BOT_TOKEN cfg then S ''bad token'' else S ''bad secret'')), w)"
  using assms by (auto simp: webhook_def)

theorem webhook_rejects_unauthenticated_witness:
  "S ''wrong'' \<noteq> BOT_TOKEN example_config
   \<and> webhook example_config (S ''wrong'') (Some (S ''wh_dev'')) (Some JNull)
        (\<lambda>data w. (Inr (), w\<lparr>warnings := 7\<rparr>)) initial_world
      = (Inl (HTTPException 403 (S ''bad token'')), initial_world)
   \<and> webhook example_config (S ''123:abc'') None (Some JNull)
        (\<lambda>data w. (Inr (), w\<lparr>warnings := 7\<rparr>)) initial_world
      = (Inl (HTTPException 403 (S ''bad secret'')), initial_world)
   \<and> webhook example_config (S ''123:abc'') (Some (S ''wh_dev'')) (Some JNull)
        (\<lambda>data w. (Inr (), w\<lparr>warnings := 7\<rparr>)) initial_world
      = (Inr (JObj [(S ''ok'', JBool True)]), initial_world\<lparr>warnings := 7\<rparr>)"
  using webhook_rejects_unauthenticated [where cfg = example_config and token = "S ''wrong''"
      and secret = "Some (S ''wh_dev'')" and body = "Some JNull"
      and process_update = "\<lambda>data w. (Inr (), w\<lparr>warnings := 7\<rparr>)" and w = initial_world]
  by (simp add: webhook_def example_config_def)

section \<open>Properties of the text handler\<close>

lemma bot_send_fields:
  "user_events (snd (bot_send ext u call w)) = user_events w"
  "requests (snd (bot_send ext u call w)) = requests w"
  "cache (snd (bot_send ext u call w)) = cache w"
  "searches (snd (bot_send ext u call w)) = searches w"
  by (simp_all add: bot_send_def Let_def split: option.splits)

lemma tmdb_search_user_events:
  "user_events (snd (tmdb_search cfg now out title w)) = user_events w"
  by (simp add: tmdb_search_def http_get_json_def Let_def split: option.splits http_outcome.splits)

lemma omdb_lookup_user_events:
  "user_events (snd (omdb_lookup cfg now out title w)) = user_events w"
  by (simp add: omdb_lookup_def http_get_json_def Let_def split: option.splits http_outcome.splits)

lemma omdb_stage_user_events:
  "user_events (snd (omdb_stage cfg ext u q w)) = user_events w"
proof -
  obtain r w1 where l: "omdb_lookup cfg (clock_omdb ext) (omdb_http ext) q w = (r, w1)"
    by (cases "omdb_lookup cfg (clock_omdb ext) (omdb_http ext) q w")
  then have "user_events w1 = user_events w"
    using omdb_lookup_user_events [of cfg "clock_omdb ext" "omdb_http ext" q w] by simp
  then show ?thesis
    using l by (auto simp: omdb_stage_def bot_send_fields split: sum.splits bool.splits prod.splits)
qed

lemma tmdb_stage_user_events:
  "user_events (snd (tmdb_stage cfg ext u q w)) = user_events w"
proof -
  obtain r w1 where l: "tmdb_search cfg (clock_tmdb ext) (tmdb_http ext) q w = (r, w1)"
    by (cases "tmdb_search cfg (clock_tmdb ext) (tmdb_http ext) q w")
  then have "user_events w1 = user_events w"
    using tmdb_search_user_events [of cfg "clock_tmdb ext" "tmdb_http ext" q w] by simp
  then show ?thesis
    using l
    by (auto simp: tmdb_stage_def bot_send_fields omdb_stage_user_events
        split: sum.splits bool.splits prod.splits)
qed

lemma audit_log_user_events: "user_events (audit_log ext uid q w) = user_events w"
  by (simp add: audit_log_def split: audit_outcome.splits)

text \<open>The handler with the pair that \<open>rate_limited\<close> returns taken apart.\<close>

lemma text_handler_unfold:
  "text_handler cfg ext u w =
     (let uid = (case effective_user u of Some i \<Rightarrow> i | None \<Rightarrow> 0);
          w1 = w\<lparr>user_events := snd (rate_limited (clock_rl ext) uid (user_events w))\<rparr>
      in if fst (rate_limited (clock_rl ext) uid (user_events w))
         then bot_send ext u (\<lambda>chat. Send_message chat TOO_MANY None) w1
         else
           (case message u of
              None \<Rightarrow> (Inl AttributeError, w1)
            | Some text \<Rightarrow>
                tmdb_stage cfg ext u (strip (case text of None \<Rightarrow> [] | Some s \<Rightarrow> s))
                  (audit_log ext uid (strip (case text of None \<Rightarrow> [] | Some s \<Rightarrow> s)) w1)))"
  by (cases "rate_limited (clock_rl ext) (case effective_user u of Some i \<Rightarrow> i | None \<Rightarrow> 0)
        (user_events w)")
    (simp add: text_handler_def Let_def split: option.splits)

lemma text_handler_user_events:
  "user_events (snd (text_handler cfg ext u w)) =
   snd (rate_limited (clock_rl ext) (case effective_user u of Some i \<Rightarrow> i | None \<Rightarrow> 0) (user_events w))"
  by (simp add: text_handler_unfold Let_def bot_send_fields tmdb_stage_user_events
      audit_log_user_events split: option.splits)

lemma text_handler_limited:
  assumes "fst (rate_limited (clock_rl ext) (case effective_user u of Some i \<Rightarrow> i | None \<Rightarrow> 0) (user_events w))"
  shows "text_handler cfg ext u w =
     bot_send ext u (\<lambda>chat. Send_message chat TOO_MANY None)
       (w\<lparr>user_events := snd (rate_limited (clock_rl ext)
             (case effective_user u of Some i \<Rightarrow> i | None \<Rightarrow> 0) (user_events w))\<rparr>)"
  using assms by (simp add: text_handler_unfold Let_def)

text \<open>Only the chat of the update matters once the identity is fixed.\<close>

lemma bot_send_effective_user:
  "bot_send ext (u\<lparr>effective_user := x\<rparr>) call w = bot_send ext u call w"
  by (simp add: bot_send_def)

lemma omdb_stage_effective_user:
  "omdb_stage cfg ext (u\<lparr>effective_user := x\<rparr>) q w = omdb_stage cfg ext u q w"
  by (auto simp: omdb_stage_def bot_send_effective_user split: prod.splits sum.splits bool.splits)

lemma tmdb_stage_effective_user:
  "tmdb_stage cfg ext (u\<lparr>effective_user := x\<rparr>) q w = tmdb_stage cfg ext u q w"
  by (auto simp: tmdb_stage_def bot_send_effective_user omdb_stage_effective_user
      split: prod.splits sum.splits bool.splits)

text \<open>
  Claim C10. For an update without \<open>effective_user\<close> the handler does exactly what it
  does for the same update sent by identity 0: it calls the rate limiter for identity 0,
  so the deque of identity 0 is the one that is trimmed and extended, and when that
  deque is full the anonymous message is refused with the slow-down notice. Anonymous
  messages are therefore counted together, in the window of identity 0.
\<close>

theorem anonymous_sender_is_identity_0:
  assumes "effective_user u = None"
  shows "text_handler cfg ext u w = text_handler cfg ext (u\<lparr>effective_user := Some 0\<rparr>) w
    \<and> user_events (snd (text_handler cfg ext u w))
        = snd (rate_limited (clock_rl ext) 0 (user_events w))
    \<and> (fst (rate_limited (clock_rl ext) 0 (user_events w)) \<longrightarrow>
         text_handler cfg ext u w =
           bot_send ext u (\<lambda>chat. Send_message chat TOO_MANY None)
             (w\<lparr>user_events := snd (rate_limited (clock_rl ext) 0 (user_events w))\<rparr>))"
proof (intro conjI impI)
  show "text_handler cfg ext u w = text_handler cfg ext (u\<lparr>effective_user := Some 0\<rparr>) w"
    using assms
    by (auto simp: text_handler_unfold Let_def bot_send_effective_user tmdb_stage_effective_user
        split: option.splits)
  show "user_events (snd (text_handler cfg ext u w)) = snd (rate_limited (clock_rl ext) 0 (user_events w))"
    using assms by (simp add: text_handler_user_events)
  show "fst (rate_limited (clock_rl ext) 0 (user_events w)) \<Longrightarrow>
         text_handler cfg ext u w =
           bot_send ext u (\<lambda>chat. Send_message chat TOO_MANY None)
             (w\<lparr>user_events := snd (rate_limited (clock_rl ext) 0 (user_events w))\<rparr>)"
    using text_handler_limited [of ext u w cfg] assms by simp
qed

theorem anonymous_sender_is_identity_0_witness:
  "effective_user (example_update\<lparr>effective_user := None\<rparr>) = None
   \<and> fst (rate_limited (clock_rl example_outside) 0
         (user_events (initial_world\<lparr>user_events := (\<lambda>_. [])(0 := replicate 15 0)\<rparr>)))
   \<and> fst (text_handler example_config example_outside (example_update\<lparr>effective_user := None\<rparr>)
         (initial_world\<lparr>user_events := (\<lambda>_. [])(0 := replicate 15 0)\<rparr>)) = Inr ()
   \<and> bot_calls (snd (text_handler example_config example_outside
         (example_update\<lparr>effective_user := None\<rparr>)
         (initial_world\<lparr>user_events := (\<lambda>_. [])(0 := replicate 15 0)\<rparr>)))
       = [Send_message 5 TOO_MANY None]
   \<and> requests (snd (text_handler example_config example_outside
         (example_update\<lparr>effective_user := None\<rparr>)
         (initial_world\<lparr>user_events := (\<lambda>_. [])(0 := replicate 15 0)\<rparr>))) = []"
  using anonymous_sender_is_identity_0 [where u = "example_update\<lparr>effective_user := None\<rparr>"
      and cfg = example_config and ext = example_outside
      and w = "initial_world\<lparr>user_events := (\<lambda>_. [])(0 := replicate 15 0)\<rparr>"]
  by (simp add: example_update_def example_outside_def initial_world_def rate_limited_def
      RL_WINDOW_def RL_LIMIT_def text_handler_def bot_send_def eval_nat_numeral)

section \<open>The stages of the handler\<close>

lemma text_handler_accepted:
  assumes "\<not> fst (rate_limited (clock_rl ext) (case effective_user u of Some i \<Rightarrow> i | None \<Rightarrow> 0) (user_events w))"
    and "message u = Some msg"
  shows "text_handler cfg ext u w =
     tmdb_stage cfg ext u (strip (case msg of None \<Rightarrow> [] | Some s \<Rightarrow> s))
       (audit_log ext (case effective_user u of Some i \<Rightarrow> i | None \<Rightarrow> 0)
          (strip (case msg of None \<Rightarrow> [] | Some s \<Rightarrow> s))
          (w\<lparr>user_events := snd (rate_limited (clock_rl ext)
             (case effective_user u of Some i \<Rightarrow> i | None \<Rightarrow> 0) (user_events w))\<rparr>))"
  using assms by (simp add: text_handler_unfold Let_def)

lemma audit_log_fields:
  "cache (audit_log ext uid q w) = cache w"
  "requests (audit_log ext uid q w) = requests w"
  "bot_calls (audit_log ext uid q w) = bot_calls w"
  by (simp_all add: audit_log_def split: audit_outcome.splits)

lemma tmdb_stage_raises:
  "tmdb_search cfg (clock_tmdb ext) (tmdb_http ext) q w = (Inl e, w1) \<Longrightarrow>
   tmdb_stage cfg ext u q w = (Inl e, w1)"
  by (simp add: tmdb_stage_def)

lemma tmdb_stage_no_match:
  "tmdb_search cfg (clock_tmdb ext) (tmdb_http ext) q w = (Inr info, w1) \<Longrightarrow>
   has_results info = Inr False \<Longrightarrow>
   tmdb_stage cfg ext u q w = omdb_stage cfg ext u q w1"
  by (simp add: tmdb_stage_def)

lemma tmdb_stage_match:
  "tmdb_search cfg (clock_tmdb ext) (tmdb_http ext) q w = (Inr info, w1) \<Longrightarrow>
   has_results info = Inr True \<Longrightarrow> tmdb_caption cfg q info = Inr (caption, poster) \<Longrightarrow>
   tmdb_stage cfg ext u q w =
     bot_send ext u
       (\<lambda>chat. if truthy poster
          then Send_photo chat (JStr (TMDB_IMAGE_BASE @ py_str (str_repr cfg) poster)) caption
                 (Some (S ''Markdown''))
          else Send_message chat caption (Some (S ''Markdown''))) w1"
  by (simp add: tmdb_stage_def)

lemma tmdb_stage_match_requests:
  "tmdb_search cfg (clock_tmdb ext) (tmdb_http ext) q w = (Inr info, w1) \<Longrightarrow>
   has_results info = Inr True \<Longrightarrow>
   requests (snd (tmdb_stage cfg ext u q w)) = requests w1"
  by (auto simp: tmdb_stage_def bot_send_fields split: sum.splits prod.splits)

lemma omdb_stage_raises:
  "omdb_lookup cfg (clock_omdb ext) (omdb_http ext) q w = (Inl e, w1) \<Longrightarrow>
   omdb_stage cfg ext u q w = (Inl e, w1)"
  by (simp add: omdb_stage_def)

lemma omdb_stage_no_match:
  "omdb_lookup cfg (clock_omdb ext) (omdb_http ext) q w = (Inr om, w1) \<Longrightarrow>
   omdb_matches om = Inr False \<Longrightarrow>
   omdb_stage cfg ext u q w = bot_send ext u (\<lambda>chat. Send_message chat NOT_FOUND None) w1"
  by (simp add: omdb_stage_def)

lemma omdb_stage_match:
  "omdb_lookup cfg (clock_omdb ext) (omdb_http ext) q w = (Inr om, w1) \<Longrightarrow>
   omdb_matches om = Inr True \<Longrightarrow> omdb_caption cfg om = Inr (caption, poster) \<Longrightarrow>
   omdb_stage cfg ext u q w =
     bot_send ext u
       (\<lambda>chat. if truthy poster \<and> poster \<noteq> JStr (S ''N/A'')
          then Send_photo chat poster caption (Some (S ''Markdown''))
          else Send_message chat caption (Some (S ''Markdown''))) w1"
  by (auto simp: omdb_stage_def)

text \<open>A response with a non-empty result list: the test of line 108 and the first result.\<close>

lemma has_results_list:
  "map_of kvs (S ''results'') = Some (JArr (res # rest)) \<Longrightarrow> has_results (JObj kvs) = Inr True"
  by (cases kvs) (auto simp: has_results_def get_def bind_def)

lemma tmdb_search_requests:
  "requests (snd (tmdb_search cfg now out q w)) = requests w \<or>
   requests (snd (tmdb_search cfg now out q w)) = requests w @ [tmdb_request cfg q]"
  by (auto simp: tmdb_search_def http_get_json_def Let_def split: option.splits http_outcome.splits)

lemma tmdb_caption_first:
  assumes "map_of kvs (S ''results'') = Some (JArr (res # rest))"
    and "get res (S ''title'') = Inr t" and "get res (S ''release_date'') = Inr rd"
    and "slice4 (py_or rd (JStr [])) = Inr year"
    and "get_default res (S ''vote_average'') (JStr (S ''N/A'')) = Inr rating"
    and "get res (S ''poster_path'') = Inr poster"
  shows "tmdb_caption cfg q (JObj kvs) =
     Inr ([127916] @ S '' *'' @ py_str (str_repr cfg) (py_or t (JStr q)) @ S ''* ('' @
            py_str (str_repr cfg) year @ S '')'' @ [10, 11088] @ S '' '' @
            py_str (str_repr cfg) rating @ S '' / 10 (TMDB)'', poster)"
  using assms by (simp add: tmdb_caption_def bind_def)

lemma tmdb_search_bot_calls:
  "bot_calls (snd (tmdb_search cfg now out q w)) = bot_calls w"
  by (auto simp: tmdb_search_def http_get_json_def Let_def split: option.splits http_outcome.splits)

text \<open>More evaluation of the worked examples.\<close>

lemma S_append_assoc: "S a @ S b @ r = S (a @ b) @ r"
  by (simp add: S_def)

lemma take_S: "take n (S cs) = S (take n cs)"
  by (simp add: S_def take_map)

lemma strip_Jailer: "strip (S ''Jailer'') = S ''Jailer''"
  by (simp add: strip_def S_def is_space_def)

lemmas handler_simps =
  text_handler_def rate_limited_def RL_WINDOW_def RL_LIMIT_def strip_Jailer audit_log_def
  tmdb_stage_def omdb_stage_def has_results_def omdb_matches_def tmdb_caption_def
  omdb_caption_def get_def bind_def py_or_def py_str_def bot_send_def TMDB_IMAGE_BASE_def
  example_update_def example_outside_def jailer_response_def omdb_answer_def
  S_append_assoc take_S Let_def

text \<open>
  Claim C2. Take a run of the handler that passes the rate limit and in which
  \<open>tmdb_search\<close> returns a dict whose \<open>results\<close> is a non-empty list. Then no OMDB
  request is made: the requests after the run are those after \<open>tmdb_search\<close>, which are
  the requests before the run and at most the one TMDB request. This holds whatever the
  OMDB key and the OMDB outcome are. And when the first result is a dict (with a date
  that can be sliced), the reply is built from that first result alone, with the source
  \<open>TMDB\<close>: the photo reply when it has a poster, else the text reply.
\<close>

theorem primary_match_wins:
  fixes cfg :: config and ext :: outside and u :: Update and w :: world
  defines "uid \<equiv> (case effective_user u of Some i \<Rightarrow> i | None \<Rightarrow> 0)"
  defines "w1 \<equiv> w\<lparr>user_events := snd (rate_limited (clock_rl ext) uid (user_events w))\<rparr>"
  assumes "\<not> fst (rate_limited (clock_rl ext) uid (user_events w))"
    and "message u = Some msg"
    and "q = strip (case msg of None \<Rightarrow> [] | Some s \<Rightarrow> s)"
    and "tmdb_search cfg (clock_tmdb ext) (tmdb_http ext) q (audit_log ext uid q w1)
           = (Inr (JObj kvs), w3)"
    and "map_of kvs (S ''results'') = Some (JArr (res # rest))"
  shows "requests (snd (text_handler cfg ext u w)) = requests w3
    \<and> (requests w3 = requests w \<or> requests w3 = requests w @ [tmdb_request cfg q])
    \<and> (get res (S ''title'') = Inr t \<and> get res (S ''release_date'') = Inr rd
          \<and> slice4 (py_or rd (JStr [])) = Inr year
          \<and> get_default res (S ''vote_average'') (JStr (S ''N/A'')) = Inr rating
          \<and> get res (S ''poster_path'') = Inr poster
        \<longrightarrow> text_handler cfg ext u w =
             bot_send ext u
               (\<lambda>chat. if truthy poster
                  then Send_photo chat (JStr (TMDB_IMAGE_BASE @ py_str (str_repr cfg) poster))
                         ([127916] @ S '' *'' @ py_str (str_repr cfg) (py_or t (JStr q)) @ S ''* ('' @
                            py_str (str_repr cfg) year @ S '')'' @ [10, 11088] @ S '' '' @
                            py_str (str_repr cfg) rating @ S '' / 10 (TMDB)'')
                         (Some (S ''Markdown''))
                  else Send_message chat
                         ([127916] @ S '' *'' @ py_str (str_repr cfg) (py_or t (JStr q)) @ S ''* ('' @
                            py_str (str_repr cfg) year @ S '')'' @ [10, 11088] @ S '' '' @
                            py_str (str_repr cfg) rating @ S '' / 10 (TMDB)'')
                         (Some (S ''Markdown''))) w3)"
proof -
  let ?w2 = "audit_log ext uid q w1"
  have th: "text_handler cfg ext u w = tmdb_stage cfg ext u q ?w2"
    using text_handler_accepted [of ext u w msg cfg] assms(3-5) by (simp add: uid_def w1_def)
  have hr: "has_results (JObj kvs) = Inr True"
    using assms(7) by (rule has_results_list)
  have a: "requests (snd (text_handler cfg ext u w)) = requests w3"
    using tmdb_stage_match_requests [OF assms(6) hr] th by simp
  have "requests ?w2 = requests w" by (simp add: audit_log_fields w1_def)
  then have b: "requests w3 = requests w \<or> requests w3 = requests w @ [tmdb_request cfg q]"
    using tmdb_search_requests [of cfg "clock_tmdb ext" "tmdb_http ext" q ?w2] assms(6) by simp
  have c: "text_handler cfg ext u w =
             bot_send ext u
               (\<lambda>chat. if truthy poster
                  then Send_photo chat (JStr (TMDB_IMAGE_BASE @ py_str (str_repr cfg) poster))
                         ([127916] @ S '' *'' @ py_str (str_repr cfg) (py_or t (JStr q)) @ S ''* ('' @
                            py_str (str_repr cfg) year @ S '')'' @ [10, 11088] @ S '' '' @
                            py_str (str_repr cfg) rating @ S '' / 10 (TMDB)'')
                         (Some (S ''Markdown''))
                  else Send_message chat
                         ([127916] @ S '' *'' @ py_str (str_repr cfg) (py_or t (JStr q)) @ S ''* ('' @
                            py_str (str_repr cfg) year @ S '')'' @ [10, 11088] @ S '' '' @
                            py_str (str_repr cfg) rating @ S '' / 10 (TMDB)'')
                         (Some (S ''Markdown''))) w3"
    if "get res (S ''title'') = Inr t" "get res (S ''release_date'') = Inr rd"
      "slice4 (py_or rd (JStr [])) = Inr year"
      "get_default res (S ''vote_average'') (JStr (S ''N/A'')) = Inr rating"
      "get res (S ''poster_path'') = Inr poster"
    using tmdb_stage_match [OF assms(6) hr tmdb_caption_first [OF assms(7) that], of u] th
    by simp
  from a b c show ?thesis by blast
qed

theorem primary_match_wins_witness:
  "\<not> fst (rate_limited (clock_rl example_outside) 42 (user_events initial_world))
   \<and> message example_update = Some (Some (S ''Jailer''))
   \<and> fst (tmdb_search example_config (clock_tmdb example_outside) (tmdb_http example_outside)
          (S ''Jailer'')
          (audit_log example_outside 42 (S ''Jailer'')
             (initial_world\<lparr>user_events :=
                snd (rate_limited (clock_rl example_outside) 42 (user_events initial_world))\<rparr>)))
       = Inr jailer_response
   \<and> OMDB_API_KEY example_config \<noteq> [] \<and> omdb_http example_outside = Json_data omdb_answer
   \<and> requests (snd (text_handler example_config example_outside example_update initial_world))
       = [tmdb_request example_config (S ''Jailer'')]
   \<and> fst (text_handler example_config example_outside example_update initial_world) = Inr ()
   \<and> bot_calls (snd (text_handler example_config example_outside example_update initial_world))
       = [Send_photo 5 (JStr (S ''https://image.tmdb.org/t/p/w500/abc.jpg''))
            ([127916] @ S '' *Jailer* (2023)'' @ [10, 11088] @ S '' 7.8 / 10 (TMDB)'')
            (Some (S ''Markdown''))]"
  using primary_match_wins [where cfg = example_config and ext = example_outside
      and u = example_update and w = initial_world and msg = "Some (S ''Jailer'')"
      and q = "S ''Jailer''"
      and kvs = "[(S ''results'', JArr [JObj
         [(S ''title'', JStr (S ''Jailer'')), (S ''release_date'', JStr (S ''2023-08-10'')),
          (S ''vote_average'', JFloat (S ''7.8'')), (S ''poster_path'', JStr (S ''/abc.jpg''))]])]"
      and ?w3.0 = "snd (tmdb_search example_config (clock_tmdb example_outside)
          (tmdb_http example_outside) (S ''Jailer'')
          (audit_log example_outside 42 (S ''Jailer'')
             (initial_world\<lparr>user_events :=
                snd (rate_limited (clock_rl example_outside) 42 (user_events initial_world))\<rparr>)))"
      and res = "JObj
         [(S ''title'', JStr (S ''Jailer'')), (S ''release_date'', JStr (S ''2023-08-10'')),
          (S ''vote_average'', JFloat (S ''7.8'')), (S ''poster_path'', JStr (S ''/abc.jpg''))]"
      and rest = "[]" and t = "JStr (S ''Jailer'')" and rd = "JStr (S ''2023-08-10'')"
      and year = "JStr (S ''2023'')" and rating = "JFloat (S ''7.8'')"
      and poster = "JStr (S ''/abc.jpg'')"]
  by (simp add: handler_simps example_simps)

section \<open>The replies\<close>

lemma has_results_jailer: "has_results jailer_response = Inr True"
  by (simp add: jailer_response_def has_results_def get_def bind_def)

lemma tmdb_caption_jailer:
  "tmdb_caption cfg (S ''Jailer'') jailer_response =
     Inr ([127916] @ S '' *Jailer* (2023)'' @ [10, 11088] @ S '' 7.8 / 10 (TMDB)'',
          JStr (S ''/abc.jpg''))"
  by (simp add: jailer_response_def tmdb_caption_def get_def bind_def py_or_def py_str_def
      take_S S_append S_append_assoc)

text \<open>
  Claim C7, as the code has it. The caption of the scenario is not the plain
  \<open>Jailer (2023)\<close>, newline, \<open>7.8 / 10 (TMDB)\<close>: the handler decorates it.
\<close>

theorem jailer_caption_counterexample:
  "bot_calls (snd (text_handler example_config example_outside example_update initial_world))
     = [Send_photo 5 (JStr (S ''https://image.tmdb.org/t/p/w500/abc.jpg''))
          ([127916] @ S '' *Jailer* (2023)'' @ [10, 11088] @ S '' 7.8 / 10 (TMDB)'')
          (Some (S ''Markdown''))]
   \<and> [127916] @ S '' *Jailer* (2023)'' @ [10, 11088] @ S '' 7.8 / 10 (TMDB)''
       \<noteq> S ''Jailer (2023)'' @ [10] @ S ''7.8 / 10 (TMDB)''"
proof (intro conjI)
  show "bot_calls (snd (text_handler example_config example_outside example_update initial_world))
     = [Send_photo 5 (JStr (S ''https://image.tmdb.org/t/p/w500/abc.jpg''))
          ([127916] @ S '' *Jailer* (2023)'' @ [10, 11088] @ S '' 7.8 / 10 (TMDB)'')
          (Some (S ''Markdown''))]"
    by (simp add: handler_simps example_simps)
  show "[127916] @ S '' *Jailer* (2023)'' @ [10, 11088] @ S '' 7.8 / 10 (TMDB)''
       \<noteq> S ''Jailer (2023)'' @ [10] @ S ''7.8 / 10 (TMDB)''"
    by (simp add: S_def)
qed

text \<open>
  Claim C7, amended. For the query \<open>Jailer\<close>, when \<open>tmdb_search\<close> returns the response
  of the scenario and the bot call does not raise, the handler makes one bot call: a
  photo with the URL \<open>https://image.tmdb.org/t/p/w500/abc.jpg\<close>, parse mode Markdown and
  the caption U+1F3AC, \<open> *Jailer* (2023)\<close>, newline, U+2B50, \<open> 7.8 / 10 (TMDB)\<close>.
\<close>

theorem jailer_reply:
  fixes cfg :: config and ext :: outside and u :: Update and w :: world
  defines "uid \<equiv> (case effective_user u of Some i \<Rightarrow> i | None \<Rightarrow> 0)"
  defines "w1 \<equiv> w\<lparr>user_events := snd (rate_limited (clock_rl ext) uid (user_events w))\<rparr>"
  assumes "\<not> fst (rate_limited (clock_rl ext) uid (user_events w))"
    and "message u = Some msg"
    and "strip (case msg of None \<Rightarrow> [] | Some s \<Rightarrow> s) = S ''Jailer''"
    and "tmdb_search cfg (clock_tmdb ext) (tmdb_http ext) (S ''Jailer'')
           (audit_log ext uid (S ''Jailer'') w1) = (Inr jailer_response, w3)"
    and "effective_chat u = Some chat" and "\<not> send_raises ext"
  shows "text_handler cfg ext u w =
     (Inr (), w3\<lparr>bot_calls := bot_calls w3 @
        [Send_photo chat (JStr (S ''https://image.tmdb.org/t/p/w500/abc.jpg''))
           ([127916] @ S '' *Jailer* (2023)'' @ [10, 11088] @ S '' 7.8 / 10 (TMDB)'')
           (Some (S ''Markdown''))]\<rparr>)"
proof -
  have "text_handler cfg ext u w =
      tmdb_stage cfg ext u (S ''Jailer'') (audit_log ext uid (S ''Jailer'') w1)"
    using text_handler_accepted [of ext u w msg cfg] assms(3-5) by (simp add: uid_def w1_def)
  then show ?thesis
    using tmdb_stage_match [OF assms(6) has_results_jailer tmdb_caption_jailer, of u] assms(7,8)
    by (simp add: bot_send_def py_str_def TMDB_IMAGE_BASE_def S_append)
qed

theorem jailer_reply_witness:
  "\<not> fst (rate_limited (clock_rl example_outside) 42 (user_events initial_world))
   \<and> message example_update = Some (Some (S ''Jailer''))
   \<and> strip (S ''Jailer'') = S ''Jailer''
   \<and> TMDB_API_KEY example_config \<noteq> []
   \<and> fst (tmdb_search example_config (clock_tmdb example_outside) (tmdb_http example_outside)
          (S ''Jailer'')
          (audit_log example_outside 42 (S ''Jailer'')
             (initial_world\<lparr>user_events :=
                snd (rate_limited (clock_rl example_outside) 42 (user_events initial_world))\<rparr>)))
       = Inr jailer_response
   \<and> effective_chat example_update = Some 5 \<and> \<not> send_raises example_outside
   \<and> fst (text_handler example_config example_outside example_update initial_world) = Inr ()
   \<and> bot_calls (snd (text_handler example_config example_outside example_update initial_world))
       = [Send_photo 5 (JStr (S ''https://image.tmdb.org/t/p/w500/abc.jpg''))
            ([127916] @ S '' *Jailer* (2023)'' @ [10, 11088] @ S '' 7.8 / 10 (TMDB)'')
            (Some (S ''Markdown''))]"
  using jailer_reply [where cfg = example_config and ext = example_outside
      and u = example_update and w = initial_world and msg = "Some (S ''Jailer'')"
      and ?w3.0 = "snd (tmdb_search example_config (clock_tmdb example_outside)
          (tmdb_http example_outside) (S ''Jailer'')
          (audit_log example_outside 42 (S ''Jailer'')
             (initial_world\<lparr>user_events :=
                snd (rate_limited (clock_rl example_outside) 42 (user_events initial_world))\<rparr>)))"
      and chat = 5]
  by (simp add: handler_simps example_simps)

text \<open>
  Claim C8, as the code has it. An OMDB match whose \<open>Poster\<close> is the string
  \<open>not available\<close> is sent as a photo with that string as the photo: the sentinel the
  handler knows is \<open>N/A\<close>.
\<close>

theorem poster_sentinel_counterexample:
  "bot_calls (snd (text_handler example_config
      (example_outside\<lparr>tmdb_http := Json_data (JObj [(S ''results'', JArr [])]),
         omdb_http := Json_data (JObj
           [(S ''Title'', JStr (S ''Jailer'')), (S ''Year'', JStr (S ''2023'')),
            (S ''imdbRating'', JStr (S ''7.1'')), (S ''Poster'', JStr (S ''not available'')),
            (S ''Response'', JStr (S ''True''))])\<rparr>)
      example_update initial_world))
     = [Send_photo 5 (JStr (S ''not available''))
          ([127916] @ S '' *Jailer* (2023)'' @ [10, 11088] @ S '' 7.1 / 10 (IMDB)'')
          (Some (S ''Markdown''))]"
  by (simp add: handler_simps example_simps)

text \<open>
  Claim C8, amended. In a run that passes the rate limit: (1) when TMDB gives no match
  and OMDB answers with a match whose \<open>Poster\<close> is the literal \<open>N/A\<close>, the reply is the
  caption as a text message, not a photo; (2) when TMDB matches with a poster, the photo
  sent is \<open>https://image.tmdb.org/t/p/w500\<close> followed by the poster path.
\<close>

theorem poster_resolution:
  fixes cfg :: config and ext :: outside and u :: Update and w :: world
  defines "uid \<equiv> (case effective_user u of Some i \<Rightarrow> i | None \<Rightarrow> 0)"
  defines "w1 \<equiv> w\<lparr>user_events := snd (rate_limited (clock_rl ext) uid (user_events w))\<rparr>"
  assumes "\<not> fst (rate_limited (clock_rl ext) uid (user_events w))"
    and "message u = Some msg"
    and "q = strip (case msg of None \<Rightarrow> [] | Some s \<Rightarrow> s)"
    and "tmdb_search cfg (clock_tmdb ext) (tmdb_http ext) q (audit_log ext uid q w1)
           = (Inr info, w3)"
  shows "(has_results info = Inr False
        \<and> omdb_lookup cfg (clock_omdb ext) (omdb_http ext) q w3 = (Inr om, w4)
        \<and> omdb_matches om = Inr True
        \<and> get om (S ''Poster'') = Inr (JStr (S ''N/A''))
        \<and> get_default om (S ''Title'') (JStr (S ''?'')) = Inr t
        \<and> get_default om (S ''Year'') (JStr []) = Inr year
        \<and> get_default om (S ''imdbRating'') (JStr (S ''N/A'')) = Inr rating
      \<longrightarrow> text_handler cfg ext u w =
            bot_send ext u
              (\<lambda>chat. Send_message chat
                 ([127916] @ S '' *'' @ py_str (str_repr cfg) t @ S ''* ('' @
                    py_str (str_repr cfg) year @ S '')'' @ [10, 11088] @ S '' '' @
                    py_str (str_repr cfg) rating @ S '' / 10 (IMDB)'')
                 (Some (S ''Markdown''))) w4)
    \<and> (has_results info = Inr True \<and> tmdb_caption cfg q info = Inr (caption, poster)
        \<and> truthy poster
      \<longrightarrow> text_handler cfg ext u w =
            bot_send ext u
              (\<lambda>chat. Send_photo chat
                 (JStr (S ''https://image.tmdb.org/t/p/w500'' @ py_str (str_repr cfg) poster))
                 caption (Some (S ''Markdown''))) w3)"
proof (intro conjI impI; elim conjE)
  let ?w2 = "audit_log ext uid q w1"
  have th: "text_handler cfg ext u w = tmdb_stage cfg ext u q ?w2"
    using text_handler_accepted [of ext u w msg cfg] assms(3-5) by (simp add: uid_def w1_def)
  {
    assume a: "has_results info = Inr False"
      "omdb_lookup cfg (clock_omdb ext) (omdb_http ext) q w3 = (Inr om, w4)"
      "omdb_matches om = Inr True"
      "get om (S ''Poster'') = Inr (JStr (S ''N/A''))"
      "get_default om (S ''Title'') (JStr (S ''?'')) = Inr t"
      "get_default om (S ''Year'') (JStr []) = Inr year"
      "get_default om (S ''imdbRating'') (JStr (S ''N/A'')) = Inr rating"
    have cap: "omdb_caption cfg om =
        Inr ([127916] @ S '' *'' @ py_str (str_repr cfg) t @ S ''* ('' @
               py_str (str_repr cfg) year @ S '')'' @ [10, 11088] @ S '' '' @
               py_str (str_repr cfg) rating @ S '' / 10 (IMDB)'', JStr (S ''N/A''))"
      using a(4-7) by (simp add: omdb_caption_def bind_def)
    show "text_handler cfg ext u w =
            bot_send ext u
              (\<lambda>chat. Send_message chat
                 ([127916] @ S '' *'' @ py_str (str_repr cfg) t @ S ''* ('' @
                    py_str (str_repr cfg) year @ S '')'' @ [10, 11088] @ S '' '' @
                    py_str (str_repr cfg) rating @ S '' / 10 (IMDB)'')
                 (Some (S ''Markdown''))) w4"
      using th tmdb_stage_no_match [OF assms(6) a(1), of u]
        omdb_stage_match [OF a(2,3) cap, of u]
      by simp
  }
  {
    assume b: "has_results info = Inr True" "tmdb_caption cfg q info = Inr (caption, poster)"
      "truthy poster"
    show "text_handler cfg ext u w =
            bot_send ext u
              (\<lambda>chat. Send_photo chat
                 (JStr (S ''https://image.tmdb.org/t/p/w500'' @ py_str (str_repr cfg) poster))
                 caption (Some (S ''Markdown''))) w3"
      using th tmdb_stage_match [OF assms(6) b(1,2), of u] b(3)
      by (simp add: TMDB_IMAGE_BASE_def)
  }
qed

theorem poster_resolution_witness:
  "\<not> fst (rate_limited (clock_rl example_outside) 42 (user_events initial_world))
   \<and> has_results (JObj [(S ''results'', JArr [])]) = Inr False
   \<and> omdb_matches omdb_answer = Inr True
   \<and> get omdb_answer (S ''Poster'') = Inr (JStr (S ''N/A''))
   \<and> bot_calls (snd (text_handler example_config
        (example_outside\<lparr>tmdb_http := Json_data (JObj [(S ''results'', JArr [])])\<rparr>)
        example_update initial_world))
       = [Send_message 5
            ([127916] @ S '' *Jailer* (2023)'' @ [10, 11088] @ S '' 7.1 / 10 (IMDB)'')
            (Some (S ''Markdown''))]
   \<and> has_results jailer_response = Inr True
   \<and> bot_calls (snd (text_handler example_config example_outside example_update initial_world))
       = [Send_photo 5 (JStr (S ''https://image.tmdb.org/t/p/w500/abc.jpg''))
            ([127916] @ S '' *Jailer* (2023)'' @ [10, 11088] @ S '' 7.8 / 10 (TMDB)'')
            (Some (S ''Markdown''))]"
  using poster_resolution [where cfg = example_config
      and ext = "example_outside\<lparr>tmdb_http := Json_data (JObj [(S ''results'', JArr [])])\<rparr>"
      and u = example_update and w = initial_world and msg = "Some (S ''Jailer'')"
      and q = "S ''Jailer''" and info = "JObj [(S ''results'', JArr [])]"
      and ?w3.0 = "snd (tmdb_search example_config 1 (Json_data (JObj [(S ''results'', JArr [])]))
          (S ''Jailer'') (initial_world\<lparr>user_events := (\<lambda>_. [])(42 := [1])\<rparr>))"
      and om = omdb_answer
      and ?w4.0 = "snd (omdb_lookup example_config 1 (Json_data omdb_answer) (S ''Jailer'')
          (snd (tmdb_search example_config 1 (Json_data (JObj [(S ''results'', JArr [])]))
          (S ''Jailer'') (initial_world\<lparr>user_events := (\<lambda>_. [])(42 := [1])\<rparr>))))"
      and t = "JStr (S ''Jailer'')" and year = "JStr (S ''2023'')" and rating = "JStr (S ''7.1'')"]
    poster_resolution [where cfg = example_config and ext = example_outside
      and u = example_update and w = initial_world and msg = "Some (S ''Jailer'')"
      and q = "S ''Jailer''" and info = jailer_response
      and ?w3.0 = "snd (tmdb_search example_config 1 (Json_data jailer_response)
          (S ''Jailer'') (initial_world\<lparr>user_events := (\<lambda>_. [])(42 := [1])\<rparr>))"
      and caption = "[127916] @ S '' *Jailer* (2023)'' @ [10, 11088] @ S '' 7.8 / 10 (TMDB)''"
      and poster = "JStr (S ''/abc.jpg'')"]
  by (simp add: handler_simps example_simps)

lemma omdb_lookup_bot_calls:
  "bot_calls (snd (omdb_lookup cfg now out q w)) = bot_calls w"
  by (auto simp: omdb_lookup_def http_get_json_def Let_def split: option.splits http_outcome.splits)

text \<open>
  Claim C1, as the code has it. Both services are configured and OMDB would match, but
  the TMDB request ends in an HTTP error status: the handler raises \<open>HTTPStatusError\<close>,
  OMDB is not asked, and no reply of any kind is sent.
\<close>

theorem upstream_error_counterexample:
  "OMDB_API_KEY example_config \<noteq> [] \<and> omdb_http example_outside = Json_data omdb_answer
   \<and> omdb_matches omdb_answer = Inr True
   \<and> fst (text_handler example_config (example_outside\<lparr>tmdb_http := Status_raises\<rparr>)
          example_update initial_world) = Inl HTTPStatusError
   \<and> requests (snd (text_handler example_config (example_outside\<lparr>tmdb_http := Status_raises\<rparr>)
          example_update initial_world)) = [tmdb_request example_config (S ''Jailer'')]
   \<and> bot_calls (snd (text_handler example_config (example_outside\<lparr>tmdb_http := Status_raises\<rparr>)
          example_update initial_world)) = []"
  by (simp add: handler_simps example_simps)

text \<open>
  Claim C1, amended. In a run that passes the rate limit: (1) when TMDB is configured,
  has no live cache entry for the query and its request fails, the handler raises that
  error; the state then differs from the state after the audit step only by the TMDB
  request: OMDB is not asked, nothing is cached, no reply is sent. (2) When TMDB gave no
  match and OMDB is configured, has no live entry and its request fails, the handler
  raises that error, again without a reply. (3) "No match from that service" is what an
  unconfigured service or an answer without a match gives: when \<open>tmdb_search\<close> and
  \<open>omdb_lookup\<close> both return without a match, the reply is the not-found message. The
  handler has no "temporarily unavailable" reply.
\<close>

theorem lookup_failure_is_raised:
  fixes cfg :: config and ext :: outside and u :: Update and w :: world
  defines "uid \<equiv> (case effective_user u of Some i \<Rightarrow> i | None \<Rightarrow> 0)"
  defines "w1 \<equiv> w\<lparr>user_events := snd (rate_limited (clock_rl ext) uid (user_events w))\<rparr>"
  assumes "\<not> fst (rate_limited (clock_rl ext) uid (user_events w))"
    and "message u = Some msg"
    and "q = strip (case msg of None \<Rightarrow> [] | Some s \<Rightarrow> s)"
  shows "(TMDB_API_KEY cfg \<noteq> []
        \<and> (case cache w (S ''tmdb:'' @ str_lower cfg q) of
              None \<Rightarrow> True | Some ci \<Rightarrow> expiry ci \<le> clock_tmdb ext)
        \<and> tmdb_http ext \<in> {Get_raises, Status_raises, Json_raises}
      \<longrightarrow> text_handler cfg ext u w =
            (Inl (case tmdb_http ext of Get_raises \<Rightarrow> RequestError
                  | Status_raises \<Rightarrow> HTTPStatusError | _ \<Rightarrow> JSONDecodeError),
             (audit_log ext uid q w1)\<lparr>requests := requests w @ [tmdb_request cfg q]\<rparr>)
          \<and> bot_calls (snd (text_handler cfg ext u w)) = bot_calls w)
    \<and> (tmdb_search cfg (clock_tmdb ext) (tmdb_http ext) q (audit_log ext uid q w1) = (Inr info, w3)
        \<and> has_results info = Inr False
        \<and> OMDB_API_KEY cfg \<noteq> []
        \<and> (case cache w3 (S ''omdb:'' @ str_lower cfg q) of
              None \<Rightarrow> True | Some ci \<Rightarrow> expiry ci \<le> clock_omdb ext)
        \<and> omdb_http ext \<in> {Get_raises, Status_raises, Json_raises}
      \<longrightarrow> text_handler cfg ext u w =
            (Inl (case omdb_http ext of Get_raises \<Rightarrow> RequestError
                  | Status_raises \<Rightarrow> HTTPStatusError | _ \<Rightarrow> JSONDecodeError),
             w3\<lparr>requests := requests w3 @ [omdb_request cfg q]\<rparr>)
          \<and> bot_calls (snd (text_handler cfg ext u w)) = bot_calls w)
    \<and> (tmdb_search cfg (clock_tmdb ext) (tmdb_http ext) q (audit_log ext uid q w1) = (Inr info, w3)
        \<and> has_results info = Inr False
        \<and> omdb_lookup cfg (clock_omdb ext) (omdb_http ext) q w3 = (Inr om, w4)
        \<and> omdb_matches om = Inr False
      \<longrightarrow> text_handler cfg ext u w =
            bot_send ext u (\<lambda>chat. Send_message chat NOT_FOUND None) w4)"
proof -
  let ?w2 = "audit_log ext uid q w1"
  have th: "text_handler cfg ext u w = tmdb_stage cfg ext u q ?w2"
    using text_handler_accepted [of ext u w msg cfg] assms(3-5) by (simp add: uid_def w1_def)
  have w2: "cache ?w2 = cache w" "requests ?w2 = requests w" "bot_calls ?w2 = bot_calls w"
    by (simp_all add: audit_log_fields w1_def)
  have p1: "text_handler cfg ext u w =
            (Inl (case tmdb_http ext of Get_raises \<Rightarrow> RequestError
                  | Status_raises \<Rightarrow> HTTPStatusError | _ \<Rightarrow> JSONDecodeError),
             ?w2\<lparr>requests := requests w @ [tmdb_request cfg q]\<rparr>)
          \<and> bot_calls (snd (text_handler cfg ext u w)) = bot_calls w"
    if a: "TMDB_API_KEY cfg \<noteq> []"
      "case cache w (S ''tmdb:'' @ str_lower cfg q) of
              None \<Rightarrow> True | Some ci \<Rightarrow> expiry ci \<le> clock_tmdb ext"
      "tmdb_http ext \<in> {Get_raises, Status_raises, Json_raises}"
  proof -
    have "case cache ?w2 (S ''tmdb:'' @ str_lower cfg q) of
              None \<Rightarrow> True | Some ci \<Rightarrow> expiry ci \<le> clock_tmdb ext"
      using a(2) w2(1) by simp
    from tmdb_search_failure(1) [OF a(1) this a(3)]
    have "tmdb_stage cfg ext u q ?w2 =
            (Inl (case tmdb_http ext of Get_raises \<Rightarrow> RequestError
                  | Status_raises \<Rightarrow> HTTPStatusError | _ \<Rightarrow> JSONDecodeError),
             ?w2\<lparr>requests := requests w @ [tmdb_request cfg q]\<rparr>)"
      using w2(2) by (simp add: tmdb_stage_raises)
    then show ?thesis using th w2(3) by simp
  qed
  have b3: "bot_calls w3 = bot_calls w"
    if "tmdb_search cfg (clock_tmdb ext) (tmdb_http ext) q ?w2 = (Inr info, w3)"
    using tmdb_search_bot_calls [of cfg "clock_tmdb ext" "tmdb_http ext" q ?w2] that w2(3)
    by simp
  have p2: "text_handler cfg ext u w =
            (Inl (case omdb_http ext of Get_raises \<Rightarrow> RequestError
                  | Status_raises \<Rightarrow> HTTPStatusError | _ \<Rightarrow> JSONDecodeError),
             w3\<lparr>requests := requests w3 @ [omdb_request cfg q]\<rparr>)
          \<and> bot_calls (snd (text_handler cfg ext u w)) = bot_calls w"
    if a: "tmdb_search cfg (clock_tmdb ext) (tmdb_http ext) q ?w2 = (Inr info, w3)"
      "has_results info = Inr False" "OMDB_API_KEY cfg \<noteq> []"
      "case cache w3 (S ''omdb:'' @ str_lower cfg q) of
              None \<Rightarrow> True | Some ci \<Rightarrow> expiry ci \<le> clock_omdb ext"
      "omdb_http ext \<in> {Get_raises, Status_raises, Json_raises}"
  proof -
    from omdb_lookup_failure(1) [OF a(3,4,5)]
    have "omdb_stage cfg ext u q w3 =
            (Inl (case omdb_http ext of Get_raises \<Rightarrow> RequestError
                  | Status_raises \<Rightarrow> HTTPStatusError | _ \<Rightarrow> JSONDecodeError),
             w3\<lparr>requests := requests w3 @ [omdb_request cfg q]\<rparr>)"
      by (simp add: omdb_stage_raises)
    then show ?thesis
      using th tmdb_stage_no_match [OF a(1,2), of u] b3 [OF a(1)] by simp
  qed
  have p3: "text_handler cfg ext u w =
            bot_send ext u (\<lambda>chat. Send_message chat NOT_FOUND None) w4"
    if a: "tmdb_search cfg (clock_tmdb ext) (tmdb_http ext) q ?w2 = (Inr info, w3)"
      "has_results info = Inr False"
      "omdb_lookup cfg (clock_omdb ext) (omdb_http ext) q w3 = (Inr om, w4)"
      "omdb_matches om = Inr False"
    using th tmdb_stage_no_match [OF a(1,2), of u] omdb_stage_no_match [OF a(3,4), of u]
    by simp
  from p1 p2 p3 show ?thesis by blast
qed

theorem lookup_failure_is_raised_witness:
  "\<not> fst (rate_limited (clock_rl example_outside) 42 (user_events initial_world))
   \<and> message example_update = Some (Some (S ''Jailer''))
   \<and> TMDB_API_KEY example_config \<noteq> [] \<and> OMDB_API_KEY example_config \<noteq> []
   \<and> cache initial_world (S ''tmdb:'' @ str_lower example_config (S ''Jailer'')) = None
   \<and> text_handler example_config (example_outside\<lparr>tmdb_http := Status_raises\<rparr>)
        example_update initial_world
       = (Inl HTTPStatusError,
          initial_world\<lparr>user_events := (\<lambda>_. [])(42 := [1]),
            requests := [tmdb_request example_config (S ''Jailer'')]\<rparr>)
   \<and> has_results (JObj [(S ''results'', JArr [])]) = Inr False
   \<and> fst (text_handler example_config
        (example_outside\<lparr>tmdb_http := Json_data (JObj [(S ''results'', JArr [])]),
           omdb_http := Get_raises\<rparr>) example_update initial_world) = Inl RequestError
   \<and> requests (snd (text_handler example_config
        (example_outside\<lparr>tmdb_http := Json_data (JObj [(S ''results'', JArr [])]),
           omdb_http := Get_raises\<rparr>) example_update initial_world))
       = [tmdb_request example_config (S ''Jailer''), omdb_request example_config (S ''Jailer'')]
   \<and> bot_calls (snd (text_handler example_config
        (example_outside\<lparr>tmdb_http := Json_data (JObj [(S ''results'', JArr [])]),
           omdb_http := Get_raises\<rparr>) example_update initial_world)) = []
   \<and> omdb_matches (JObj [(S ''Response'', JStr (S ''False''))]) = Inr False
   \<and> bot_calls (snd (text_handler example_config
        (example_outside\<lparr>tmdb_http := Json_data (JObj [(S ''results'', JArr [])]),
           omdb_http := Json_data (JObj [(S ''Response'', JStr (S ''False''))])\<rparr>)
        example_update initial_world)) = [Send_message 5 NOT_FOUND None]"
  using lookup_failure_is_raised [where cfg = example_config
      and ext = "example_outside\<lparr>tmdb_http := Status_raises\<rparr>"
      and u = example_update and w = initial_world and msg = "Some (S ''Jailer'')"
      and q = "S ''Jailer''"]
    lookup_failure_is_raised [where cfg = example_config
      and ext = "example_outside\<lparr>tmdb_http := Json_data (JObj [(S ''results'', JArr [])]),
           omdb_http := Get_raises\<rparr>"
      and u = example_update and w = initial_world and msg = "Some (S ''Jailer'')"
      and q = "S ''Jailer''" and info = "JObj [(S ''results'', JArr [])]"
      and ?w3.0 = "snd (tmdb_search example_config 1 (Json_data (JObj [(S ''results'', JArr [])]))
          (S ''Jailer'') (initial_world\<lparr>user_events := (\<lambda>_. [])(42 := [1])\<rparr>))"]
    lookup_failure_is_raised [where cfg = example_config
      and ext = "example_outside\<lparr>tmdb_http := Json_data (JObj [(S ''results'', JArr [])]),
           omdb_http := Json_data (JObj [(S ''Response'', JStr (S ''False''))])\<rparr>"
      and u = example_update and w = initial_world and msg = "Some (S ''Jailer'')"
      and q = "S ''Jailer''" and info = "JObj [(S ''results'', JArr [])]"
      and ?w3.0 = "snd (tmdb_search example_config 1 (Json_data (JObj [(S ''results'', JArr [])]))
          (S ''Jailer'') (initial_world\<lparr>user_events := (\<lambda>_. [])(42 := [1])\<rparr>))"
      and om = "JObj [(S ''Response'', JStr (S ''False''))]"
      and ?w4.0 = "snd (omdb_lookup example_config 1
          (Json_data (JObj [(S ''Response'', JStr (S ''False''))])) (S ''Jailer'')
          (snd (tmdb_search example_config 1 (Json_data (JObj [(S ''results'', JArr [])]))
          (S ''Jailer'') (initial_world\<lparr>user_events := (\<lambda>_. [])(42 := [1])\<rparr>))))"]
  by (simp add: handler_simps example_simps)

end
